theory Spec2Isabelle
  imports Main
begin

section \<open>JavaScript strings\<close>

text \<open>
  Strings are lists of code units. \<open>falsy\<close> is JavaScript's \<open>!s\<close> on a string: only the
  empty string is falsy (an absent field, \<open>undefined\<close>, takes the same branch and is
  represented by the empty string).
\<close>

definition falsy :: "string \<Rightarrow> bool" where
  "falsy s = (s = [])"

definition char_between :: "char \<Rightarrow> char \<Rightarrow> char \<Rightarrow> bool" where
  "char_between lo hi c = ((of_char lo :: nat) \<le> of_char c \<and> (of_char c :: nat) \<le> of_char hi)"

text \<open>The character classes of the regular expressions used in the services.\<close>

definition is_lower :: "char \<Rightarrow> bool" where
  "is_lower c = char_between (CHR ''a'') (CHR ''z'') c"

definition is_upper :: "char \<Rightarrow> bool" where
  "is_upper c = char_between (CHR ''A'') (CHR ''Z'') c"

definition is_digit :: "char \<Rightarrow> bool" where
  "is_digit c = char_between (CHR ''0'') (CHR ''9'') c"

definition special_chars :: "char list" where
  "special_chars = ''!@#$%^&*()_+-=[]{};:|,.<>/?'' @ [CHR 0x27, CHR 0x22, CHR 0x5C]"

definition is_special :: "char \<Rightarrow> bool" where
  "is_special c = (c \<in> set special_chars)"

text \<open>\<open>re.test(s)\<close> for a regular expression that is a single character class.\<close>

definition regex_test :: "(char \<Rightarrow> bool) \<Rightarrow> string \<Rightarrow> bool" where
  "regex_test cls s = list_ex cls s"

section \<open>PasswordService\<close>

record validation_result =
  isValid :: bool
  errors :: "string list"

text \<open>\<open>errors.push(m)\<close> under a condition, in the order of the source.\<close>

definition push_if :: "bool \<Rightarrow> string \<Rightarrow> string list \<Rightarrow> string list" where
  "push_if b m es = (if b then es @ [m] else es)"

definition validatePasswordStrength :: "string \<Rightarrow> validation_result" where
  "validatePasswordStrength password =
     (if falsy password then
        \<lparr>isValid = False, errors = [''Password must be a string'']\<rparr>
      else
        let errors0 = [];
            errors1 = push_if (length password < 8)
                        ''Password must be at least 8 characters long'' errors0;
            errors2 = push_if (length password > 128)
                        ''Password must be less than 128 characters long'' errors1;
            errors3 = push_if (\<not> regex_test is_lower password)
                        ''Password must contain at least one lowercase letter'' errors2;
            errors4 = push_if (\<not> regex_test is_upper password)
                        ''Password must contain at least one uppercase letter'' errors3;
            errors5 = push_if (\<not> regex_test is_digit password)
                        ''Password must contain at least one number'' errors4;
            errors6 = push_if (\<not> regex_test is_special password)
                        ''Password must contain at least one special character'' errors5
        in \<lparr>isValid = (length errors6 = 0), errors = errors6\<rparr>)"

definition SALT_ROUNDS :: nat where
  "SALT_ROUNDS = 12"

text \<open>
  The bcrypt library is an external dependency; its two functions are parameters of the
  model: \<open>bcrypt_hash plain rounds\<close> and \<open>bcrypt_compare plain hashed\<close>.
\<close>

record bcrypt =
  bcrypt_hash :: "string \<Rightarrow> nat \<Rightarrow> string"
  bcrypt_compare :: "string \<Rightarrow> string \<Rightarrow> bool"

text \<open>A thrown \<open>Error\<close> is its message: \<open>Inl message\<close>.\<close>

definition hashPassword :: "bcrypt \<Rightarrow> string \<Rightarrow> string + string" where
  "hashPassword bc plainPassword =
     (if falsy plainPassword then Inl ''Password must be a non-empty string''
      else if length plainPassword < 6 then Inl ''Password must be at least 6 characters long''
      else Inr (bcrypt_hash bc plainPassword SALT_ROUNDS))"

definition comparePassword :: "bcrypt \<Rightarrow> string \<Rightarrow> string \<Rightarrow> string + bool" where
  "comparePassword bc plainPassword hashedPassword =
     (if falsy plainPassword then Inl ''Plain password must be a non-empty string''
      else if falsy hashedPassword then Inl ''Hashed password must be a non-empty string''
      else Inr (bcrypt_compare bc plainPassword hashedPassword))"

section \<open>JWTService\<close>

text \<open>
  \<open>process.env\<close>: the two signing secrets and the two life times. A life time such as
  \<open>'15m'\<close> is represented by the number of seconds it denotes; \<open>None\<close> is an unset
  variable.
\<close>

record env =
  JWT_ACCESS_SECRET :: "string option"
  JWT_REFRESH_SECRET :: "string option"
  JWT_ACCESS_EXPIRES_IN :: "int option"
  JWT_REFRESH_EXPIRES_IN :: "int option"

text \<open>\<open>!secret\<close> on an environment variable: unset or empty.\<close>

definition falsy_opt :: "string option \<Rightarrow> bool" where
  "falsy_opt v = (case v of None \<Rightarrow> True | Some s \<Rightarrow> falsy s)"

text \<open>Account and row identifiers are opaque values assigned by the store.\<close>

type_synonym uid = nat

text \<open>The payload object handed to the token generators; \<open>None\<close> is a missing field.\<close>

record token_payload =
  payload_userId :: "uid option"
  payload_email :: string
  payload_role :: "string option"

text \<open>The claims inside a signed token.\<close>

record jwt_claims =
  claim_userId :: "uid option"
  claim_email :: string
  claim_role :: "string option"
  claim_type :: string
  claim_iat :: int
  claim_exp :: int
  claim_iss :: string
  claim_aud :: string

text \<open>
  A token string is either a string that does not parse as a JWT, or the claims together
  with the secret whose HMAC signs them. The jsonwebtoken library is an external
  dependency and is modelled symbolically: the compact encoding is injective, and a
  signature verifies under exactly the secret that made it.
\<close>

datatype token = Opaque string | Signed jwt_claims string

definition falsy_token :: "token \<Rightarrow> bool" where
  "falsy_token t = (t = Opaque [])"

text \<open>An error object of the library: its \<open>name\<close> and its \<open>message\<close>.\<close>

type_synonym js_error = "string \<times> string"

text \<open>
  \<open>jwt.sign(claims, secret, {expiresIn, issuer, audience})\<close> at clock \<open>now\<close>
  (milliseconds): \<open>iat\<close> is the clock in whole seconds, \<open>exp = iat + expiresIn\<close>.
  There is no random part: signing the same claims with the same secret within the same
  second gives the same token.
\<close>

definition jwt_sign ::
  "uid option \<Rightarrow> string \<Rightarrow> string option \<Rightarrow> string \<Rightarrow> string \<Rightarrow> int \<Rightarrow> string \<Rightarrow> string \<Rightarrow> int \<Rightarrow> token" where
  "jwt_sign uid mail rl ty secret expiresIn issuer audience now =
     Signed \<lparr>claim_userId = uid, claim_email = mail, claim_role = rl, claim_type = ty,
             claim_iat = now div 1000, claim_exp = now div 1000 + expiresIn,
             claim_iss = issuer, claim_aud = audience\<rparr> secret"

text \<open>
  \<open>jwt.verify(token, secret, {issuer, audience})\<close> at clock \<open>now\<close>, in the library's
  order: structure, signature, expiry, audience, issuer.
\<close>

definition jwt_verify :: "token \<Rightarrow> string \<Rightarrow> string \<Rightarrow> string \<Rightarrow> int \<Rightarrow> js_error + jwt_claims" where
  "jwt_verify t secret issuer audience now =
     (case t of
        Opaque _ \<Rightarrow> Inl (''JsonWebTokenError'', ''jwt malformed'')
      | Signed c k \<Rightarrow>
          if k \<noteq> secret then Inl (''JsonWebTokenError'', ''invalid signature'')
          else if now div 1000 \<ge> claim_exp c then Inl (''TokenExpiredError'', ''jwt expired'')
          else if claim_aud c \<noteq> audience then Inl (''JsonWebTokenError'', ''jwt audience invalid'')
          else if claim_iss c \<noteq> issuer then Inl (''JsonWebTokenError'', ''jwt issuer invalid'')
          else Inr c)"

text \<open>\<open>a || b\<close> on an optional string.\<close>

definition or_else :: "string option \<Rightarrow> string \<Rightarrow> string" where
  "or_else v d = (case v of None \<Rightarrow> d | Some s \<Rightarrow> if falsy s then d else s)"

text \<open>
  The generators. The payload is an object in every call the services make, so the check
  \<open>typeof payload !== 'object'\<close> has no branch here; \<open>jwt.sign\<close> does not throw on these
  options, so the handler around it is never entered.
\<close>

definition generateAccessToken :: "env \<Rightarrow> int \<Rightarrow> token_payload \<Rightarrow> string + token" where
  "generateAccessToken e now payload =
     (if payload_userId payload = None then Inl ''Payload must include userId''
      else if falsy (payload_email payload) then Inl ''Payload must include email''
      else if falsy_opt (JWT_ACCESS_SECRET e) then
        Inl ''JWT_ACCESS_SECRET environment variable is required''
      else
        let secret = the (JWT_ACCESS_SECRET e);
            expiresIn = (case JWT_ACCESS_EXPIRES_IN e of None \<Rightarrow> 15 * 60 | Some n \<Rightarrow> n)
        in Inr (jwt_sign (payload_userId payload) (payload_email payload)
                  (Some (or_else (payload_role payload) ''user'')) ''access''
                  secret expiresIn ''auth-service'' ''auth-client'' now))"

definition generateRefreshToken :: "env \<Rightarrow> int \<Rightarrow> token_payload \<Rightarrow> string + token" where
  "generateRefreshToken e now payload =
     (if payload_userId payload = None then Inl ''Payload must include userId''
      else if falsy (payload_email payload) then Inl ''Payload must include email''
      else if falsy_opt (JWT_REFRESH_SECRET e) then
        Inl ''JWT_REFRESH_SECRET environment variable is required''
      else
        let secret = the (JWT_REFRESH_SECRET e);
            expiresIn = (case JWT_REFRESH_EXPIRES_IN e of None \<Rightarrow> 7 * 24 * 60 * 60 | Some n \<Rightarrow> n)
        in Inr (jwt_sign (payload_userId payload) (payload_email payload)
                  None ''refresh''
                  secret expiresIn ''auth-service'' ''auth-client'' now))"

record token_pair =
  accessToken :: token
  refreshToken_of :: token

definition generateTokenPair :: "env \<Rightarrow> int \<Rightarrow> token_payload \<Rightarrow> string + token_pair" where
  "generateTokenPair e now payload =
     (case generateAccessToken e now payload of
        Inl m \<Rightarrow> Inl m
      | Inr a \<Rightarrow>
          (case generateRefreshToken e now payload of
             Inl m \<Rightarrow> Inl m
           | Inr r \<Rightarrow> Inr \<lparr>accessToken = a, refreshToken_of = r\<rparr>))"

text \<open>
  The verifiers. The type check sits inside the \<open>try\<close> block, so its \<open>Error\<close> is caught
  by the same handler as the library's errors and leaves through the last branch.
\<close>

definition verifyAccessToken :: "env \<Rightarrow> int \<Rightarrow> token \<Rightarrow> string + jwt_claims" where
  "verifyAccessToken e now t =
     (if falsy_token t then Inl ''Token must be a non-empty string''
      else if falsy_opt (JWT_ACCESS_SECRET e) then
        Inl ''JWT_ACCESS_SECRET environment variable is required''
      else
        let secret = the (JWT_ACCESS_SECRET e);
            attempt = (case jwt_verify t secret ''auth-service'' ''auth-client'' now of
                         Inl err \<Rightarrow> Inl err
                       | Inr decoded \<Rightarrow>
                           if claim_type decoded \<noteq> ''access''
                           then Inl (''Error'', ''Invalid token type'')
                           else Inr decoded)
        in (case attempt of
              Inr decoded \<Rightarrow> Inr decoded
            | Inl (name, message) \<Rightarrow>
                if name = ''TokenExpiredError'' then Inl ''Access token has expired''
                else if name = ''JsonWebTokenError'' then Inl ''Invalid access token''
                else Inl (''Failed to verify access token: '' @ message)))"

definition verifyRefreshToken :: "env \<Rightarrow> int \<Rightarrow> token \<Rightarrow> string + jwt_claims" where
  "verifyRefreshToken e now t =
     (if falsy_token t then Inl ''Token must be a non-empty string''
      else if falsy_opt (JWT_REFRESH_SECRET e) then
        Inl ''JWT_REFRESH_SECRET environment variable is required''
      else
        let secret = the (JWT_REFRESH_SECRET e);
            attempt = (case jwt_verify t secret ''auth-service'' ''auth-client'' now of
                         Inl err \<Rightarrow> Inl err
                       | Inr decoded \<Rightarrow>
                           if claim_type decoded \<noteq> ''refresh''
                           then Inl (''Error'', ''Invalid token type'')
                           else Inr decoded)
        in (case attempt of
              Inr decoded \<Rightarrow> Inr decoded
            | Inl (name, message) \<Rightarrow>
                if name = ''TokenExpiredError'' then Inl ''Refresh token has expired''
                else if name = ''JsonWebTokenError'' then Inl ''Invalid refresh token''
                else Inl (''Failed to verify refresh token: '' @ message)))"

text \<open>
  \<open>decodeToken\<close>: \<open>jwt.decode\<close> reads the claims without checking signature or expiry
  and gives \<open>null\<close> for a string that is not a JWT.
\<close>

definition decodeToken :: "token \<Rightarrow> string + jwt_claims option" where
  "decodeToken t =
     (if falsy_token t then Inl ''Token must be a non-empty string''
      else case t of Opaque _ \<Rightarrow> Inr None | Signed c _ \<Rightarrow> Inr (Some c))"

section \<open>The store\<close>

text \<open>
  Modelled from the spec: the Prisma schema is not part of the sources. The two tables are
  the spec's Account and RefreshTokenRecord with the field names the services use.
  \<open>email\<close> and \<open>token\<close> are unique columns, identifiers come from the store, and a
  new account starts with \<open>isEmailVerified = false\<close> and no password, picture, provider
  id or login time unless the caller gives one. Times are milliseconds, and a lookup
  compares strings exactly.
\<close>

record user =
  user_id :: uid
  email :: string
  password :: "string option"
  firstName :: string
  lastName :: string
  profilePicture :: "string option"
  provider :: string
  providerId :: "string option"
  isEmailVerified :: bool
  lastLoginAt :: "int option"
  createdAt :: int
  updatedAt :: int

record refresh_token =
  token_id :: uid
  token :: token
  userId :: uid
  expiresAt :: int
  isRevoked :: bool
  token_createdAt :: int

record db =
  users :: "user list"
  refreshTokens :: "refresh_token list"
  next_id :: uid

text \<open>
  An \<open>async\<close> function of a service: it reads and writes the store and either returns a
  value or throws an \<open>Error\<close> with a message. What it wrote before throwing stays written.
\<close>

type_synonym 'a io = "db \<Rightarrow> (string + 'a) \<times> db"

definition io_return :: "'a \<Rightarrow> 'a io" where
  "io_return x = (\<lambda>s. (Inr x, s))"

definition io_throw :: "string \<Rightarrow> 'a io" where
  "io_throw m = (\<lambda>s. (Inl m, s))"

definition io_bind :: "'a io \<Rightarrow> ('a \<Rightarrow> 'b io) \<Rightarrow> 'b io" where
  "io_bind m f = (\<lambda>s. case m s of (Inl e, s') \<Rightarrow> (Inl e, s') | (Inr x, s') \<Rightarrow> f x s')"

definition io_lift :: "string + 'a \<Rightarrow> 'a io" where
  "io_lift r = (\<lambda>s. (r, s))"

text \<open>\<open>try { body } catch (error) { handler }\<close>.\<close>

definition io_catch :: "'a io \<Rightarrow> (string \<Rightarrow> 'a io) \<Rightarrow> 'a io" where
  "io_catch body handler =
     (\<lambda>s. case body s of (Inl e, s') \<Rightarrow> handler e s' | (Inr x, s') \<Rightarrow> (Inr x, s'))"

subsection \<open>The Prisma calls the services make\<close>

definition user_findUnique_email :: "string \<Rightarrow> user option io" where
  "user_findUnique_email mail = (\<lambda>s. (Inr (find (\<lambda>u. email u = mail) (users s)), s))"

text \<open>
  \<open>prisma.user.create({data})\<close> at clock \<open>now\<close>: the store assigns the identifier and the
  two maintenance times; a second row with the same email violates the unique constraint.
\<close>

definition user_create :: "int \<Rightarrow> user \<Rightarrow> user io" where
  "user_create now data =
     (\<lambda>s. if \<exists>u \<in> set (users s). email u = email data
          then (Inl ''Unique constraint failed on the fields: (email)'', s)
          else let u = data\<lparr>user_id := next_id s, createdAt := now, updatedAt := now\<rparr>
               in (Inr u, s\<lparr>users := users s @ [u], next_id := Suc (next_id s)\<rparr>))"

text \<open>\<open>prisma.user.update({where: {id}, data: {lastLoginAt}})\<close>.\<close>

definition user_update_lastLoginAt :: "uid \<Rightarrow> int \<Rightarrow> unit io" where
  "user_update_lastLoginAt i now =
     (\<lambda>s. if \<exists>u \<in> set (users s). user_id u = i
          then (Inr (),
                s\<lparr>users := map (\<lambda>u. if user_id u = i
                                      then u\<lparr>lastLoginAt := Some now, updatedAt := now\<rparr>
                                      else u) (users s)\<rparr>)
          else (Inl ''Record to update not found.'', s))"

definition refreshToken_findUnique :: "token \<Rightarrow> refresh_token option io" where
  "refreshToken_findUnique t = (\<lambda>s. (Inr (find (\<lambda>r. token r = t) (refreshTokens s)), s))"

text \<open>
  \<open>prisma.refreshToken.create({data: {token, userId, expiresAt}})\<close>: a new row, not
  revoked; a row with the same token string already in the table violates the unique
  constraint.
\<close>

definition refreshToken_create :: "int \<Rightarrow> token \<Rightarrow> uid \<Rightarrow> int \<Rightarrow> unit io" where
  "refreshToken_create now t owner expiry =
     (\<lambda>s. if \<exists>r \<in> set (refreshTokens s). token r = t
          then (Inl ''Unique constraint failed on the fields: (token)'', s)
          else (Inr (),
                s\<lparr>refreshTokens := refreshTokens s @
                       [\<lparr>token_id = next_id s, token = t, userId = owner, expiresAt = expiry,
                         isRevoked = False, token_createdAt = now\<rparr>],
                  next_id := Suc (next_id s)\<rparr>))"

text \<open>\<open>prisma.refreshToken.update({where: {token}, data: {isRevoked: true}})\<close>.\<close>

definition refreshToken_update_revoke :: "token \<Rightarrow> unit io" where
  "refreshToken_update_revoke t =
     (\<lambda>s. if \<exists>r \<in> set (refreshTokens s). token r = t
          then (Inr (),
                s\<lparr>refreshTokens := map (\<lambda>r. if token r = t then r\<lparr>isRevoked := True\<rparr> else r)
                                        (refreshTokens s)\<rparr>)
          else (Inl ''Record to update not found.'', s))"

text \<open>\<open>updateMany({where: {userId, isRevoked: false}, data: {isRevoked: true}})\<close>.\<close>

definition refreshToken_updateMany_revoke :: "uid \<Rightarrow> nat io" where
  "refreshToken_updateMany_revoke owner =
     (\<lambda>s. (Inr (length (filter (\<lambda>r. userId r = owner \<and> \<not> isRevoked r) (refreshTokens s))),
           s\<lparr>refreshTokens := map (\<lambda>r. if userId r = owner \<and> \<not> isRevoked r
                                        then r\<lparr>isRevoked := True\<rparr> else r)
                                   (refreshTokens s)\<rparr>))"

text \<open>\<open>deleteMany({where: {OR: [{expiresAt: {lt: now}}, {isRevoked: true}]}})\<close>.\<close>

definition refreshToken_deleteMany_expired_or_revoked :: "int \<Rightarrow> nat io" where
  "refreshToken_deleteMany_expired_or_revoked now =
     (\<lambda>s. (Inr (length (filter (\<lambda>r. expiresAt r < now \<or> isRevoked r) (refreshTokens s))),
           s\<lparr>refreshTokens := filter (\<lambda>r. \<not> (expiresAt r < now \<or> isRevoked r))
                                      (refreshTokens s)\<rparr>))"

section \<open>String operations of the services\<close>

text \<open>\<open>haystack.includes(needle)\<close>.\<close>

fun str_includes :: "string \<Rightarrow> string \<Rightarrow> bool" where
  "str_includes [] needle = (needle = [])"
| "str_includes (c # cs) needle = (take (length needle) (c # cs) = needle \<or> str_includes cs needle)"

text \<open>\<open>s.toLowerCase()\<close> on the ASCII letters.\<close>

definition to_lower :: "char \<Rightarrow> char" where
  "to_lower c = (if is_upper c then char_of ((of_char c :: nat) + 32) else c)"

definition toLowerCase :: "string \<Rightarrow> string" where
  "toLowerCase s = map to_lower s"

text \<open>The class \<open>\s\<close> within one-byte code units, and \<open>s.trim()\<close>.\<close>

definition is_space :: "char \<Rightarrow> bool" where
  "is_space c = (c \<in> set [CHR 0x20, CHR 0x09, CHR 0x0A, CHR 0x0B, CHR 0x0C, CHR 0x0D, CHR 0xA0])"

definition trim :: "string \<Rightarrow> string" where
  "trim s = rev (dropWhile is_space (rev (dropWhile is_space s)))"

fun join :: "string \<Rightarrow> string list \<Rightarrow> string" where
  "join sep [] = []"
| "join sep [x] = x"
| "join sep (x # y # ys) = x @ sep @ join sep (y # ys)"

text \<open>Decimal rendering of a count inside a template string.\<close>

fun decimal :: "nat \<Rightarrow> string" where
  "decimal n = (if n < 10 then [char_of (48 + n)]
                else decimal (n div 10) @ [char_of (48 + n mod 10)])"

declare decimal.simps [simp del]

text \<open>
  \<open>/^[^\s@]+@[^\s@]+\.[^\s@]+$/.test(s)\<close>: a non-empty local part before the only
  \<open>@\<close>, no white space anywhere, and a dot inside the domain that is neither its first
  nor its last character.
\<close>

definition email_char :: "char \<Rightarrow> bool" where
  "email_char c = (\<not> is_space c \<and> c \<noteq> CHR ''@'')"

definition emailRegex_test :: "string \<Rightarrow> bool" where
  "emailRegex_test s =
     (let localPart = takeWhile (\<lambda>c. c \<noteq> CHR ''@'') s;
          rest = dropWhile (\<lambda>c. c \<noteq> CHR ''@'') s
      in localPart \<noteq> [] \<and> list_all email_char localPart \<and> rest \<noteq> [] \<and>
         list_all email_char (tl rest) \<and> CHR ''.'' \<in> set (butlast (tl (tl rest))))"

section \<open>AuthService\<close>

record registration =
  reg_email :: string
  reg_password :: string
  reg_firstName :: string
  reg_lastName :: string

record credentials =
  cred_email :: string
  cred_password :: string

text \<open>
  The object a service returns on success (\<open>success: true\<close> is the \<open>Inr\<close>); a field the
  service does not set is \<open>None\<close>.
\<close>

record response =
  message :: string
  resp_user :: "user option"
  tokens :: "token_pair option"
  resp_count :: "nat option"

text \<open>
  One call reads the clock once: \<open>now\<close> (milliseconds) stands for every \<open>new Date()\<close> and
  \<open>Date.now()\<close> of the call. \<open>setDate(getDate() + 7)\<close> is seven days of 24 hours.
\<close>

definition seven_days :: int where
  "seven_days = 7 * 24 * 60 * 60 * 1000"

definition register :: "env \<Rightarrow> bcrypt \<Rightarrow> int \<Rightarrow> registration \<Rightarrow> response io" where
  "register e bc now userData =
     (if falsy (reg_email userData) \<or> falsy (reg_password userData) \<or>
         falsy (reg_firstName userData) \<or> falsy (reg_lastName userData) then
        io_throw ''Email, password, firstName, and lastName are required''
      else if \<not> emailRegex_test (reg_email userData) then
        io_throw ''Invalid email format''
      else if \<not> isValid (validatePasswordStrength (reg_password userData)) then
        io_throw (''Password validation failed: '' @
                  join '', '' (errors (validatePasswordStrength (reg_password userData))))
      else
        io_catch
          (io_bind (user_findUnique_email (toLowerCase (reg_email userData))) (\<lambda>existingUser.
           if existingUser \<noteq> None then io_throw ''User with this email already exists''
           else
           io_bind (io_lift (hashPassword bc (reg_password userData))) (\<lambda>hashedPassword.
           io_bind (user_create now
                      \<lparr>user_id = 0, email = toLowerCase (reg_email userData),
                       password = Some hashedPassword,
                       firstName = trim (reg_firstName userData),
                       lastName = trim (reg_lastName userData),
                       profilePicture = None, provider = ''local'', providerId = None,
                       isEmailVerified = False, lastLoginAt = None,
                       createdAt = 0, updatedAt = 0\<rparr>) (\<lambda>created.
           io_bind (io_lift (generateTokenPair e now
                      \<lparr>payload_userId = Some (user_id created), payload_email = email created,
                       payload_role = None\<rparr>)) (\<lambda>newTokens.
           io_bind (refreshToken_create now (refreshToken_of newTokens) (user_id created)
                      (now + seven_days)) (\<lambda>_.
           io_return \<lparr>message = ''User registered successfully'',
                      resp_user = Some (created\<lparr>password := None\<rparr>),
                      tokens = Some newTokens, resp_count = None\<rparr>))))))
          (\<lambda>msg. if str_includes msg ''already exists'' \<or> str_includes msg ''validation failed'' \<or>
                     str_includes msg ''Invalid email''
                  then io_throw msg
                  else io_throw (''Registration failed: '' @ msg)))"

text \<open>
  In \<open>login\<close> the \<open>try\<close> block declares a \<open>password\<close> of its own, in its last statement
  before the \<open>return\<close>: \<open>const { password, ...userWithoutPassword } = user\<close>. A
  \<open>const\<close> is scoped to its whole block, so the \<open>password\<close> that the earlier statement
  \<open>comparePassword(password, user.password)\<close> of the same block reads is this inner
  one, not the parameter taken from \<open>credentials\<close>, and it is read before its declaration
  has run (its temporal dead zone): the read throws a \<open>ReferenceError\<close>.
\<close>

definition ReferenceError_password :: string where
  "ReferenceError_password =
     ''Cannot access '' @ [CHR 0x27] @ ''password'' @ [CHR 0x27] @ '' before initialization''"

definition read_block_password :: "string + string" where
  "read_block_password = Inl ReferenceError_password"

definition login :: "env \<Rightarrow> bcrypt \<Rightarrow> int \<Rightarrow> credentials \<Rightarrow> response io" where
  "login e bc now creds =
     (if falsy (cred_email creds) \<or> falsy (cred_password creds) then
        io_throw ''Email and password are required''
      else
        io_catch
          (io_bind (user_findUnique_email (toLowerCase (cred_email creds))) (\<lambda>found.
           case found of
             None \<Rightarrow> io_throw ''Invalid email or password''
           | Some u \<Rightarrow>
               if falsy_opt (password u) then
                 io_throw ''This account uses OAuth authentication. Please login with Google.''
               else
               io_bind (io_lift read_block_password) (\<lambda>blockPassword.
               io_bind (io_lift (comparePassword bc blockPassword (the (password u))))
                 (\<lambda>isPasswordValid.
               if \<not> isPasswordValid then io_throw ''Invalid email or password''
               else
               io_bind (user_update_lastLoginAt (user_id u) now) (\<lambda>_.
               io_bind (io_lift (generateTokenPair e now
                          \<lparr>payload_userId = Some (user_id u), payload_email = email u,
                           payload_role = None\<rparr>)) (\<lambda>newTokens.
               io_bind (refreshToken_create now (refreshToken_of newTokens) (user_id u)
                          (now + seven_days)) (\<lambda>_.
               io_return \<lparr>message = ''Login successful'',
                          resp_user = Some (u\<lparr>password := None\<rparr>),
                          tokens = Some newTokens, resp_count = None\<rparr>)))))))
          (\<lambda>msg. if str_includes msg ''Invalid email'' \<or> str_includes msg ''OAuth authentication''
                  then io_throw msg
                  else io_throw (''Login failed: '' @ msg)))"

definition logout :: "env \<Rightarrow> int \<Rightarrow> token \<Rightarrow> response io" where
  "logout e now rt =
     (if falsy_token rt then io_throw ''Refresh token is required''
      else
        io_catch
          (io_bind (io_lift (verifyRefreshToken e now rt)) (\<lambda>_.
           io_bind (refreshToken_findUnique rt) (\<lambda>tokenRecord.
           case tokenRecord of
             None \<Rightarrow> io_throw ''Invalid refresh token''
           | Some r \<Rightarrow>
               if isRevoked r then io_throw ''Token already revoked''
               else
               io_bind (refreshToken_update_revoke rt) (\<lambda>_.
               io_return \<lparr>message = ''Logout successful'', resp_user = None,
                          tokens = None, resp_count = None\<rparr>))))
          (\<lambda>msg. if str_includes msg ''Invalid refresh token'' \<or> str_includes msg ''already revoked''
                  then io_throw msg
                  else io_throw (''Logout failed: '' @ msg)))"

text \<open>
  \<open>findUnique({where: {token}, include: {user: true}})\<close>: the row and its owner. Reading
  \<open>tokenRecord.user.id\<close> of a row without an owner is a \<open>TypeError\<close>.
\<close>

definition refreshToken_findUnique_include_user ::
  "token \<Rightarrow> (refresh_token \<times> user option) option io" where
  "refreshToken_findUnique_include_user t =
     (\<lambda>s. (Inr (case find (\<lambda>r. token r = t) (refreshTokens s) of
                   None \<Rightarrow> None
                 | Some r \<Rightarrow> Some (r, find (\<lambda>u. user_id u = userId r) (users s))), s))"

definition refreshToken :: "env \<Rightarrow> int \<Rightarrow> token \<Rightarrow> response io" where
  "refreshToken e now rt =
     (if falsy_token rt then io_throw ''Refresh token is required''
      else
        io_catch
          (io_bind (io_lift (verifyRefreshToken e now rt)) (\<lambda>_.
           io_bind (refreshToken_findUnique_include_user rt) (\<lambda>tokenRecord.
           case tokenRecord of
             None \<Rightarrow> io_throw ''Invalid refresh token''
           | Some (r, owner) \<Rightarrow>
               if isRevoked r then io_throw ''Refresh token has been revoked''
               else if expiresAt r < now then io_throw ''Refresh token has expired''
               else
               io_bind (refreshToken_update_revoke rt) (\<lambda>_.
               case owner of
                 None \<Rightarrow> io_throw ''Cannot read properties of null (reading id)''
               | Some u \<Rightarrow>
                   io_bind (io_lift (generateTokenPair e now
                              \<lparr>payload_userId = Some (user_id u), payload_email = email u,
                               payload_role = None\<rparr>)) (\<lambda>newTokens.
                   io_bind (refreshToken_create now (refreshToken_of newTokens) (user_id u)
                              (now + seven_days)) (\<lambda>_.
                   io_return \<lparr>message = ''Token refreshed successfully'', resp_user = None,
                              tokens = Some newTokens, resp_count = None\<rparr>))))))
          (\<lambda>msg. if str_includes msg ''Invalid refresh token'' \<or> str_includes msg ''revoked'' \<or>
                     str_includes msg ''expired''
                  then io_throw msg
                  else io_throw (''Token refresh failed: '' @ msg)))"

definition revokeAllTokens :: "uid option \<Rightarrow> response io" where
  "revokeAllTokens owner =
     (case owner of
        None \<Rightarrow> io_throw ''User ID is required''
      | Some i \<Rightarrow>
          io_catch
            (io_bind (refreshToken_updateMany_revoke i) (\<lambda>n.
             io_return \<lparr>message = ''Revoked '' @ decimal n @ '' refresh tokens'',
                        resp_user = None, tokens = None, resp_count = Some n\<rparr>))
            (\<lambda>msg. io_throw (''Failed to revoke tokens: '' @ msg)))"

definition cleanupExpiredTokens :: "int \<Rightarrow> response io" where
  "cleanupExpiredTokens now =
     io_catch
       (io_bind (refreshToken_deleteMany_expired_or_revoked now) (\<lambda>n.
        io_return \<lparr>message = ''Cleaned up '' @ decimal n @ '' expired/revoked tokens'',
                   resp_user = None, tokens = None, resp_count = Some n\<rparr>))
       (\<lambda>msg. io_throw (''Failed to cleanup tokens: '' @ msg))"

section \<open>OAuthService\<close>

text \<open>
  The verified profile of the provider: \<open>None\<close> is an absent field, \<open>profile_emails\<close>
  and \<open>photos\<close> hold the \<open>value\<close> of each entry.
\<close>

record oauth_profile =
  profile_id :: string
  profile_emails :: "string list"
  name_givenName :: "string option"
  name_familyName :: "string option"
  displayName :: "string option"
  photos :: "string list"

text \<open>\<open>s.split(' ')[0]\<close> and \<open>s.split(' ').slice(1).join(' ')\<close>.\<close>

definition first_word :: "string \<Rightarrow> string" where
  "first_word s = takeWhile (\<lambda>c. c \<noteq> CHR 0x20) s"

definition other_words :: "string \<Rightarrow> string" where
  "other_words s = tl (dropWhile (\<lambda>c. c \<noteq> CHR 0x20) s)"

definition first_photo :: "string list \<Rightarrow> string option" where
  "first_photo ps = (case ps of [] \<Rightarrow> None | p # _ \<Rightarrow> if falsy p then None else Some p)"

definition createOAuthUser ::
  "int \<Rightarrow> string \<Rightarrow> string \<Rightarrow> string \<Rightarrow> oauth_profile \<Rightarrow> user io" where
  "createOAuthUser now mail pid prov profile =
     io_catch
       (user_create now
          \<lparr>user_id = 0, email = mail, password = None,
           firstName = or_else (name_givenName profile)
                         (or_else (map_option first_word (displayName profile)) ''User''),
           lastName = or_else (name_familyName profile)
                        (or_else (map_option other_words (displayName profile)) []),
           profilePicture = first_photo (photos profile),
           provider = prov, providerId = Some pid,
           isEmailVerified = True, lastLoginAt = Some now,
           createdAt = 0, updatedAt = 0\<rparr>)
       (\<lambda>msg. io_throw (''OAuth user creation failed: '' @ msg))"

section \<open>Sequences of operations\<close>

datatype operation =
    Register int registration
  | Login int credentials
  | Logout int token
  | Refresh int token
  | RevokeAllSessions "uid option"
  | Purge int

text \<open>The store after one operation, whether it returned or threw.\<close>

fun step :: "env \<Rightarrow> bcrypt \<Rightarrow> db \<Rightarrow> operation \<Rightarrow> db" where
  "step e bc s (Register now userData) = snd (register e bc now userData s)"
| "step e bc s (Login now creds) = snd (login e bc now creds s)"
| "step e bc s (Logout now rt) = snd (logout e now rt s)"
| "step e bc s (Refresh now rt) = snd (refreshToken e now rt s)"
| "step e bc s (RevokeAllSessions owner) = snd (revokeAllTokens owner s)"
| "step e bc s (Purge now) = snd (cleanupExpiredTokens now s)"

definition run :: "env \<Rightarrow> bcrypt \<Rightarrow> operation list \<Rightarrow> db \<Rightarrow> db" where
  "run e bc ops s = foldl (step e bc) s ops"

section \<open>Rows over time\<close>

text \<open>The store after a rotation of \<open>old\<close> into \<open>new\<close> for the account \<open>owner\<close>.\<close>

definition rotated :: "int \<Rightarrow> token \<Rightarrow> token \<Rightarrow> uid \<Rightarrow> db \<Rightarrow> db" where
  "rotated now old new owner s =
     s\<lparr>refreshTokens :=
         map (\<lambda>r. if token r = old then r\<lparr>isRevoked := True\<rparr> else r) (refreshTokens s) @
         [\<lparr>token_id = next_id s, token = new, userId = owner,
           expiresAt = now + seven_days, isRevoked = False, token_createdAt = now\<rparr>],
       next_id := Suc (next_id s)\<rparr>"

text \<open>A row is ACTIVE at a clock value when it is neither revoked nor past its expiry.\<close>

definition active :: "int \<Rightarrow> refresh_token \<Rightarrow> bool" where
  "active now r = (\<not> isRevoked r \<and> expiresAt r > now)"

text \<open>
  What may happen to one row: nothing, or its flag goes to \<open>True\<close>. Every other field,
  \<open>expiresAt\<close> included, stays.
\<close>

definition row_evolves :: "refresh_token \<Rightarrow> refresh_token \<Rightarrow> bool" where
  "row_evolves r r' = (r' = r \<or> r' = r\<lparr>isRevoked := True\<rparr>)"

text \<open>Row identifiers are distinct and were handed out by the store's sequence.\<close>

definition store_ok :: "db \<Rightarrow> bool" where
  "store_ok s = (distinct (map token_id (refreshTokens s)) \<and>
                 (\<forall>r \<in> set (refreshTokens s). token_id r < next_id s))"

text \<open>
  \<open>evolves s s'\<close>: the sequence only grows, a well-formed store stays well formed, and
  every row of \<open>s'\<close> that carries an identifier handed out before \<open>s\<close> comes from a row
  of \<open>s\<close> by \<open>row_evolves\<close>.
\<close>

definition evolves :: "db \<Rightarrow> db \<Rightarrow> bool" where
  "evolves s s' =
     (next_id s \<le> next_id s' \<and> (store_ok s \<longrightarrow> store_ok s') \<and>
      (\<forall>r' \<in> set (refreshTokens s'). token_id r' < next_id s \<longrightarrow>
         (\<exists>r \<in> set (refreshTokens s). row_evolves r r')))"

definition preserves :: "'a io \<Rightarrow> bool" where
  "preserves m = (\<forall>s. evolves s (snd (m s)))"

section \<open>A concrete deployment\<close>

text \<open>The environment of the unit tests, a toy hash, and an empty store.\<close>

definition test_env :: env where
  "test_env = \<lparr>JWT_ACCESS_SECRET = Some ''test-access-secret-key'',
               JWT_REFRESH_SECRET = Some ''test-refresh-secret-key'',
               JWT_ACCESS_EXPIRES_IN = Some (15 * 60),
               JWT_REFRESH_EXPIRES_IN = Some (7 * 24 * 60 * 60)\<rparr>"

definition toy_bcrypt :: bcrypt where
  "toy_bcrypt = \<lparr>bcrypt_hash = (\<lambda>plain rounds. ''$2b$'' @ plain),
                 bcrypt_compare = (\<lambda>plain hashed. hashed = ''$2b$'' @ plain)\<rparr>"

definition empty_db :: db where
  "empty_db = \<lparr>users = [], refreshTokens = [], next_id = 1\<rparr>"

definition alice :: registration where
  "alice = \<lparr>reg_email = ''Alice@X.com'', reg_password = ''Aa1!aaaa'',
            reg_firstName = ''A'', reg_lastName = ''B''\<rparr>"

text \<open>
  What registering \<open>alice\<close> at clock 5000 in the empty store gives: her account, her two
  tokens, her session row, and the store \<open>alice_db\<close>. In \<open>alice_db2\<close> she holds a second
  session, issued at clock 70000.
\<close>

definition alice_user :: user where
  "alice_user = \<lparr>user_id = 1, email = ''alice@x.com'', password = Some ''$2b$Aa1!aaaa'',
                 firstName = ''A'', lastName = ''B'', profilePicture = None,
                 provider = ''local'', providerId = None, isEmailVerified = False,
                 lastLoginAt = None, createdAt = 5000, updatedAt = 5000\<rparr>"

definition alice_access :: token where
  "alice_access =
     Signed \<lparr>claim_userId = Some 1, claim_email = ''alice@x.com'', claim_role = Some ''user'',
             claim_type = ''access'', claim_iat = 5, claim_exp = 905,
             claim_iss = ''auth-service'', claim_aud = ''auth-client''\<rparr>
       ''test-access-secret-key''"

definition alice_refresh :: token where
  "alice_refresh =
     Signed \<lparr>claim_userId = Some 1, claim_email = ''alice@x.com'', claim_role = None,
             claim_type = ''refresh'', claim_iat = 5, claim_exp = 604805,
             claim_iss = ''auth-service'', claim_aud = ''auth-client''\<rparr>
       ''test-refresh-secret-key''"

definition alice_row :: refresh_token where
  "alice_row = \<lparr>token_id = 2, token = alice_refresh, userId = 1, expiresAt = 604805000,
                isRevoked = False, token_createdAt = 5000\<rparr>"

definition alice_db :: db where
  "alice_db = \<lparr>users = [alice_user], refreshTokens = [alice_row], next_id = 3\<rparr>"

definition alice_refresh2 :: token where
  "alice_refresh2 =
     Signed \<lparr>claim_userId = Some 1, claim_email = ''alice@x.com'', claim_role = None,
             claim_type = ''refresh'', claim_iat = 70, claim_exp = 604870,
             claim_iss = ''auth-service'', claim_aud = ''auth-client''\<rparr>
       ''test-refresh-secret-key''"

definition alice_row2 :: refresh_token where
  "alice_row2 = \<lparr>token_id = 3, token = alice_refresh2, userId = 1, expiresAt = 604870000,
                 isRevoked = False, token_createdAt = 70000\<rparr>"

definition alice_db2 :: db where
  "alice_db2 = \<lparr>users = [alice_user\<lparr>lastLoginAt := Some 70000, updatedAt := 70000\<rparr>],
                refreshTokens = [alice_row, alice_row2], next_id = 4\<rparr>"

definition subject :: token_payload where
  "subject = \<lparr>payload_userId = Some 1, payload_email = ''test@example.com'',
              payload_role = Some ''admin''\<rparr>"

definition google_profile :: oauth_profile where
  "google_profile = \<lparr>profile_id = ''google_1'', profile_emails = [''Alice@Example.COM''],
                     name_givenName = Some ''Alice'', name_familyName = Some ''Liddell'',
                     displayName = None, photos = []\<rparr>"

section \<open>Properties of PasswordService\<close>

text \<open>
  C7, as stated, at the empty password: the guard for a missing password answers with its
  own message and returns at once, so none of the five rules the empty string violates
  is listed.
\<close>

theorem validatePasswordStrength_empty_counterexample:
  "length ([] :: string) < 8 \<and>
   errors (validatePasswordStrength []) = [''Password must be a string''] \<and>
   ''Password must be at least 8 characters long'' \<notin> set (errors (validatePasswordStrength []))"
  by (simp add: validatePasswordStrength_def falsy_def)

text \<open>
  C7 (amended): for every non-empty password the error list is exactly the list of the
  violated rules, each with its message, in the order length below 8, length above 128,
  no lowercase letter, no uppercase letter, no digit, no special character; no rule stops
  the enumeration. For every password, \<open>isValid\<close> holds exactly when the list is empty.
\<close>

theorem validatePasswordStrength_enumerates:
  "(pw \<noteq> [] \<longrightarrow>
     errors (validatePasswordStrength pw) =
       (if length pw < 8 then [''Password must be at least 8 characters long''] else []) @
       (if length pw > 128 then [''Password must be less than 128 characters long''] else []) @
       (if \<not> list_ex is_lower pw
        then [''Password must contain at least one lowercase letter''] else []) @
       (if \<not> list_ex is_upper pw
        then [''Password must contain at least one uppercase letter''] else []) @
       (if \<not> list_ex is_digit pw
        then [''Password must contain at least one number''] else []) @
       (if \<not> list_ex is_special pw
        then [''Password must contain at least one special character''] else [])) \<and>
   (isValid (validatePasswordStrength pw) \<longleftrightarrow>
      errors (validatePasswordStrength pw) = [])"
  by (simp add: validatePasswordStrength_def falsy_def push_if_def regex_test_def Let_def)

theorem validatePasswordStrength_enumerates_witness:
  "''weak'' \<noteq> [] \<and>
   errors (validatePasswordStrength ''weak'') =
     [''Password must be at least 8 characters long'',
      ''Password must contain at least one uppercase letter'',
      ''Password must contain at least one number'',
      ''Password must contain at least one special character''] \<and>
   \<not> isValid (validatePasswordStrength ''weak'')"
  using validatePasswordStrength_enumerates [of "''weak''"]
  by (simp add: is_lower_def is_upper_def is_digit_def is_special_def special_chars_def
        char_between_def)



section \<open>Evaluating the services\<close>

lemmas io_defs = io_bind_def io_catch_def io_throw_def io_return_def io_lift_def

text \<open>The substring tests the handlers make on the messages that reach them.\<close>

lemma message_tests:
  "str_includes ''Invalid email or password'' ''Invalid email''"
  "\<not> str_includes ''Refresh token has expired'' ''Invalid refresh token''"
  "\<not> str_includes ''Refresh token has expired'' ''already revoked''"
  "str_includes ''Refresh token has expired'' ''expired''"
  "str_includes ''Refresh token has been revoked'' ''revoked''"
  by code_simp+

section \<open>Properties of login\<close>

text \<open>
  A login with the email of an account that has a password never reaches the comparison:
  whatever password is presented, right or wrong, the read of the block's own
  \<open>password\<close> throws, the handler wraps the message, and the store is unchanged.
\<close>

lemma login_existing_account:
  assumes "cred_email c \<noteq> []" and "cred_password c \<noteq> []"
    and "find (\<lambda>u. email u = toLowerCase (cred_email c)) (users s) = Some u"
    and "password u = Some h" and "h \<noteq> []"
  shows "login e bc now c s = (Inl (''Login failed: '' @ ReferenceError_password), s)"
proof -
  have "\<not> str_includes ReferenceError_password ''Invalid email''"
    "\<not> str_includes ReferenceError_password ''OAuth authentication''"
    by code_simp+
  then show ?thesis
    using assms
    by (simp add: login_def io_defs user_findUnique_email_def falsy_def falsy_opt_def
          read_block_password_def)
qed

lemma login_unknown_email:
  assumes "cred_email c \<noteq> []" and "cred_password c \<noteq> []"
    and "find (\<lambda>u. email u = toLowerCase (cred_email c)) (users s) = None"
  shows "login e bc now c s = (Inl ''Invalid email or password'', s)"
  using assms
  by (simp add: login_def io_defs user_findUnique_email_def falsy_def message_tests)

text \<open>
  C4 at a concrete input, in the store that holds the account of \<open>alice\<close>: a login with an
  email that matches no account throws \<open>Invalid email or password\<close>; a login with her
  email and a wrong password throws \<open>Login failed: Cannot access 'password' before
  initialization\<close>. The two wordings differ, so the answer tells whether the email has
  an account.
\<close>

theorem login_wording_reveals_account:
  "login test_env toy_bcrypt 80000
     \<lparr>cred_email = ''nobody@x.com'', cred_password = ''Aa1!aaaa''\<rparr> alice_db =
     (Inl ''Invalid email or password'', alice_db) \<and>
   find (\<lambda>u. email u = ''alice@x.com'') (users alice_db) = Some alice_user \<and>
   password alice_user = Some ''$2b$Aa1!aaaa'' \<and>
   bcrypt_compare toy_bcrypt ''guess'' ''$2b$Aa1!aaaa'' = False \<and>
   login test_env toy_bcrypt 90000
     \<lparr>cred_email = ''Alice@X.com'', cred_password = ''guess''\<rparr> alice_db =
     (Inl (''Login failed: Cannot access '' @ [CHR 0x27] @ ''password'' @ [CHR 0x27] @
           '' before initialization''), alice_db)"
  by code_simp

section \<open>Properties of logout\<close>

text \<open>
  C6: a logout that succeeds changes the store in one place only: the row whose token is
  the presented one gets \<open>isRevoked = true\<close>. Every other row, the other sessions of the
  same account included, and every account are as before.
\<close>

theorem logout_frame:
  assumes "logout e now rt s = (Inr resp, s')"
  shows "users s' = users s \<and>
         refreshTokens s' =
           map (\<lambda>r. if token r = rt then r\<lparr>isRevoked := True\<rparr> else r) (refreshTokens s) \<and>
         (\<forall>r \<in> set (refreshTokens s). token r \<noteq> rt \<longrightarrow> r \<in> set (refreshTokens s'))"
proof -
  have "s' = s\<lparr>refreshTokens :=
                 map (\<lambda>r. if token r = rt then r\<lparr>isRevoked := True\<rparr> else r) (refreshTokens s)\<rparr>"
    using assms
    by (auto simp: logout_def io_defs refreshToken_findUnique_def refreshToken_update_revoke_def
             split: if_splits sum.splits option.splits prod.splits)
  then show ?thesis by auto
qed

theorem logout_frame_witness:
  "logout test_env 80000 alice_refresh alice_db2 =
     (Inr \<lparr>message = ''Logout successful'', resp_user = None, tokens = None,
           resp_count = None\<rparr>,
      alice_db2\<lparr>refreshTokens := [alice_row\<lparr>isRevoked := True\<rparr>, alice_row2]\<rparr>) \<and>
   users (alice_db2\<lparr>refreshTokens := [alice_row\<lparr>isRevoked := True\<rparr>, alice_row2]\<rparr>) =
     users alice_db2 \<and>
   alice_row2 \<in> set (refreshTokens
     (alice_db2\<lparr>refreshTokens := [alice_row\<lparr>isRevoked := True\<rparr>, alice_row2]\<rparr>))"
proof -
  have run: "logout test_env 80000 alice_refresh alice_db2 =
     (Inr \<lparr>message = ''Logout successful'', resp_user = None, tokens = None,
           resp_count = None\<rparr>,
      alice_db2\<lparr>refreshTokens := [alice_row\<lparr>isRevoked := True\<rparr>, alice_row2]\<rparr>)"
    by code_simp
  have other: "alice_row2 \<in> set (refreshTokens alice_db2)" "token alice_row2 \<noteq> alice_refresh"
    by code_simp+
  from logout_frame [OF run]
  have "users (alice_db2\<lparr>refreshTokens := [alice_row\<lparr>isRevoked := True\<rparr>, alice_row2]\<rparr>) =
          users alice_db2"
    and "\<forall>r \<in> set (refreshTokens alice_db2). token r \<noteq> alice_refresh \<longrightarrow>
           r \<in> set (refreshTokens
             (alice_db2\<lparr>refreshTokens := [alice_row\<lparr>isRevoked := True\<rparr>, alice_row2]\<rparr>))"
    by blast+
  with other run show ?thesis
    by blast
qed

text \<open>
  C9: logout verifies the token before it reads the store. For a token signed with the
  refresh secret whose \<open>exp\<close> has passed, logout throws
  \<open>Logout failed: Refresh token has expired\<close> and the store is what it was, whether or
  not it holds a matching row that is not revoked. And whenever logout throws, the store
  is unchanged.
\<close>

theorem logout_expired_token_unchanged:
  "(JWT_REFRESH_SECRET e = Some k \<and> k \<noteq> [] \<and> claim_exp c \<le> now div 1000 \<longrightarrow>
      logout e now (Signed c k) s = (Inl ''Logout failed: Refresh token has expired'', s)) \<and>
   (logout e now rt s = (Inl m, s') \<longrightarrow> s' = s)"
proof (intro conjI impI)
  assume "JWT_REFRESH_SECRET e = Some k \<and> k \<noteq> [] \<and> claim_exp c \<le> now div 1000"
  then have "verifyRefreshToken e now (Signed c k) = Inl ''Refresh token has expired''"
    by (simp add: verifyRefreshToken_def falsy_token_def falsy_opt_def falsy_def jwt_verify_def)
  then show "logout e now (Signed c k) s = (Inl ''Logout failed: Refresh token has expired'', s)"
    by (simp add: logout_def falsy_token_def io_defs message_tests)
next
  assume "logout e now rt s = (Inl m, s')"
  then show "s' = s"
    by (auto simp: logout_def io_defs refreshToken_findUnique_def refreshToken_update_revoke_def
             split: if_splits sum.splits option.splits prod.splits)
qed

theorem logout_expired_token_unchanged_witness:
  "find (\<lambda>r. token r = alice_refresh) (refreshTokens alice_db) = Some alice_row \<and>
   isRevoked alice_row = False \<and>
   logout test_env 700000000 alice_refresh alice_db =
     (Inl ''Logout failed: Refresh token has expired'', alice_db) \<and>
   snd (logout test_env 6000 (Opaque ''not.a.jwt'') alice_db) = alice_db"
proof -
  let ?c = "\<lparr>claim_userId = Some 1, claim_email = ''alice@x.com'', claim_role = None,
             claim_type = ''refresh'', claim_iat = 5, claim_exp = 604805,
             claim_iss = ''auth-service'', claim_aud = ''auth-client''\<rparr>"
  have row: "find (\<lambda>r. token r = alice_refresh) (refreshTokens alice_db) = Some alice_row"
    "isRevoked alice_row = False"
    by code_simp+
  have secret: "JWT_REFRESH_SECRET test_env = Some ''test-refresh-secret-key'' \<and>
                ''test-refresh-secret-key'' \<noteq> [] \<and> claim_exp ?c \<le> 700000000 div 1000"
    by (simp add: test_env_def)
  have thrown: "logout test_env 6000 (Opaque ''not.a.jwt'') alice_db =
                  (Inl ''Invalid refresh token'',
                   snd (logout test_env 6000 (Opaque ''not.a.jwt'') alice_db))"
    by code_simp
  have expired: "logout test_env 700000000 alice_refresh alice_db =
                   (Inl ''Logout failed: Refresh token has expired'', alice_db)"
    using logout_expired_token_unchanged [where e = test_env and c = ?c
        and k = "''test-refresh-secret-key''" and now = 700000000 and s = alice_db] secret
    unfolding alice_refresh_def by blast
  have same: "snd (logout test_env 6000 (Opaque ''not.a.jwt'') alice_db) = alice_db"
    using logout_expired_token_unchanged [where e = test_env and now = 6000 and s = alice_db
        and rt = "Opaque ''not.a.jwt''" and m = "''Invalid refresh token''"
        and s' = "snd (logout test_env 6000 (Opaque ''not.a.jwt'') alice_db)"] thrown
    by blast
  show ?thesis
    using row expired same by blast
qed

section \<open>Properties of token issuance and rotation\<close>

lemma generateTokenPair_Inr:
  assumes "generateTokenPair e now p = Inr pair"
  shows "accessToken pair =
           Signed \<lparr>claim_userId = payload_userId p, claim_email = payload_email p,
                   claim_role = Some (or_else (payload_role p) ''user''),
                   claim_type = ''access'', claim_iat = now div 1000,
                   claim_exp = now div 1000 +
                     (case JWT_ACCESS_EXPIRES_IN e of None \<Rightarrow> 15 * 60 | Some n \<Rightarrow> n),
                   claim_iss = ''auth-service'', claim_aud = ''auth-client''\<rparr>
             (the (JWT_ACCESS_SECRET e))"
    and "refreshToken_of pair =
           Signed \<lparr>claim_userId = payload_userId p, claim_email = payload_email p,
                   claim_role = None,
                   claim_type = ''refresh'', claim_iat = now div 1000,
                   claim_exp = now div 1000 +
                     (case JWT_REFRESH_EXPIRES_IN e of None \<Rightarrow> 7 * 24 * 60 * 60 | Some n \<Rightarrow> n),
                   claim_iss = ''auth-service'', claim_aud = ''auth-client''\<rparr>
             (the (JWT_REFRESH_SECRET e))"
  using assms
  by (auto simp: generateTokenPair_def generateAccessToken_def generateRefreshToken_def
        jwt_sign_def Let_def split: if_splits sum.splits)

lemma revoke_keeps_tokens:
  "(\<exists>r \<in> set (map (\<lambda>r. if P r then r\<lparr>isRevoked := True\<rparr> else r) rows). token r = x) =
   (\<exists>r \<in> set rows. token r = x)"
  by (induction rows) auto

text \<open>What a rotation that returns has done.\<close>

lemma refreshToken_Inr:
  assumes "refreshToken e now rt s = (Inr resp, s')"
  shows "\<exists>r u pair.
           find (\<lambda>r. token r = rt) (refreshTokens s) = Some r \<and>
           \<not> isRevoked r \<and> \<not> expiresAt r < now \<and>
           find (\<lambda>u. user_id u = userId r) (users s) = Some u \<and>
           generateTokenPair e now
             \<lparr>payload_userId = Some (user_id u), payload_email = email u,
              payload_role = None\<rparr> = Inr pair \<and>
           (\<forall>r \<in> set (refreshTokens s). token r \<noteq> refreshToken_of pair) \<and>
           resp = \<lparr>message = ''Token refreshed successfully'', resp_user = None,
                   tokens = Some pair, resp_count = None\<rparr> \<and>
           s' = rotated now rt (refreshToken_of pair) (user_id u) s"
  using assms
  by (auto simp: refreshToken_def io_defs refreshToken_findUnique_include_user_def
        refreshToken_update_revoke_def refreshToken_create_def rotated_def
        revoke_keeps_tokens
      simp del: set_map
      split: if_splits sum.splits option.splits prod.splits)

text \<open>
  C10: the access token that a successful rotation returns carries the role \<open>user\<close>,
  whatever the store, the presented token and the earlier tokens of the account were: the
  payload of the rotation has no role, and the generator fills in \<open>user\<close>.
\<close>

theorem refreshToken_role_is_user:
  assumes "refreshToken e now rt s = (Inr resp, s')"
  shows "\<exists>pair c. tokens resp = Some pair \<and> decodeToken (accessToken pair) = Inr (Some c) \<and>
           claim_role c = Some ''user'' \<and> claim_type c = ''access''"
proof -
  from refreshToken_Inr [OF assms] obtain r u pair where
    "find (\<lambda>r. token r = rt) (refreshTokens s) = Some r \<and>
     \<not> isRevoked r \<and> \<not> expiresAt r < now \<and>
     find (\<lambda>u. user_id u = userId r) (users s) = Some u \<and>
     generateTokenPair e now
       \<lparr>payload_userId = Some (user_id u), payload_email = email u,
        payload_role = None\<rparr> = Inr pair \<and>
     (\<forall>r \<in> set (refreshTokens s). token r \<noteq> refreshToken_of pair) \<and>
     resp = \<lparr>message = ''Token refreshed successfully'', resp_user = None,
             tokens = Some pair, resp_count = None\<rparr> \<and>
     s' = rotated now rt (refreshToken_of pair) (user_id u) s"
    by (elim exE) (erule that)
  then have gen: "generateTokenPair e now
            \<lparr>payload_userId = Some (user_id u), payload_email = email u,
             payload_role = None\<rparr> = Inr pair"
    and resp: "resp = \<lparr>message = ''Token refreshed successfully'', resp_user = None,
                       tokens = Some pair, resp_count = None\<rparr>"
    by simp_all
  from generateTokenPair_Inr(1) [OF gen]
  have "decodeToken (accessToken pair) =
          Inr (Some \<lparr>claim_userId = Some (user_id u), claim_email = email u,
                   claim_role = Some ''user'',
                   claim_type = ''access'', claim_iat = now div 1000,
                   claim_exp = now div 1000 +
                     (case JWT_ACCESS_EXPIRES_IN e of None \<Rightarrow> 15 * 60 | Some n \<Rightarrow> n),
                   claim_iss = ''auth-service'', claim_aud = ''auth-client''\<rparr>)"
    by (simp add: decodeToken_def falsy_token_def or_else_def)
  moreover have "tokens resp = Some pair"
    by (simp add: resp)
  ultimately show ?thesis
    by simp
qed

theorem refreshToken_role_is_user_witness:
  "\<exists>resp s'. refreshToken test_env 90000 alice_refresh2 alice_db2 = (Inr resp, s') \<and>
     (\<exists>pair c. tokens resp = Some pair \<and> decodeToken (accessToken pair) = Inr (Some c) \<and>
        claim_role c = Some ''user'' \<and> claim_type c = ''access'')"
proof -
  let ?new = "Signed \<lparr>claim_userId = Some 1, claim_email = ''alice@x.com'', claim_role = None,
                     claim_type = ''refresh'', claim_iat = 90, claim_exp = 604890,
                     claim_iss = ''auth-service'', claim_aud = ''auth-client''\<rparr>
               ''test-refresh-secret-key''"
  let ?acc = "Signed \<lparr>claim_userId = Some 1, claim_email = ''alice@x.com'',
                     claim_role = Some ''user'',
                     claim_type = ''access'', claim_iat = 90, claim_exp = 990,
                     claim_iss = ''auth-service'', claim_aud = ''auth-client''\<rparr>
               ''test-access-secret-key''"
  have run: "refreshToken test_env 90000 alice_refresh2 alice_db2 =
     (Inr \<lparr>message = ''Token refreshed successfully'', resp_user = None,
           tokens = Some \<lparr>accessToken = ?acc, refreshToken_of = ?new\<rparr>, resp_count = None\<rparr>,
      rotated 90000 alice_refresh2 ?new 1 alice_db2)"
    by code_simp
  show ?thesis
    using refreshToken_role_is_user [OF run] run by blast
qed

lemma verifyRefreshToken_at_other_time:
  assumes "verifyRefreshToken e now rt = Inr c"
  shows "verifyRefreshToken e now' rt = Inr c \<or>
         verifyRefreshToken e now' rt = Inl ''Refresh token has expired''"
  using assms
  by (auto simp: verifyRefreshToken_def jwt_verify_def Let_def
      split: if_splits token.splits sum.splits prod.splits)

lemma verifyRefreshToken_not_falsy:
  "verifyRefreshToken e now rt = Inr c \<Longrightarrow> \<not> falsy_token rt"
  by (auto simp: verifyRefreshToken_def split: if_splits)

lemma find_after_revoke:
  assumes "find (\<lambda>r. token r = rt) rows = Some r"
  shows "find (\<lambda>r. token r = rt)
           (map (\<lambda>r. if token r = rt then r\<lparr>isRevoked := True\<rparr> else r) rows @ tail_rows) =
         Some (r\<lparr>isRevoked := True\<rparr>)"
  using assms by (induction rows) (auto split: if_splits)

text \<open>
  Rotation when the new refresh token is not yet a row of the store: the call returns the
  new pair, the presented row is revoked and one new row is appended.
\<close>

lemma refreshToken_rotates_when_fresh:
  assumes verified: "verifyRefreshToken e now rt = Inr c"
    and row: "find (\<lambda>r. token r = rt) (refreshTokens s) = Some r"
    and live: "\<not> isRevoked r" "\<not> expiresAt r < now"
    and owner: "find (\<lambda>u. user_id u = userId r) (users s) = Some u"
    and issued: "generateTokenPair e now
                   \<lparr>payload_userId = Some (user_id u), payload_email = email u,
                    payload_role = None\<rparr> = Inr pair"
    and fresh: "\<forall>r \<in> set (refreshTokens s). token r \<noteq> refreshToken_of pair"
  shows "refreshToken e now rt s =
           (Inr \<lparr>message = ''Token refreshed successfully'', resp_user = None,
                 tokens = Some pair, resp_count = None\<rparr>,
            rotated now rt (refreshToken_of pair) (user_id u) s)"
proof -
  have present: "\<exists>r \<in> set (refreshTokens s). token r = rt"
    using row by (auto simp: find_Some_iff)
  show ?thesis
    using assms present verifyRefreshToken_not_falsy [OF verified]
    by (simp add: refreshToken_def io_defs refreshToken_findUnique_include_user_def
        refreshToken_update_revoke_def refreshToken_create_def rotated_def
        revoke_keeps_tokens del: set_map)
qed

text \<open>After a rotation the old token is dead at any later or earlier clock.\<close>

lemma refreshToken_again_fails:
  assumes verified: "verifyRefreshToken e now rt = Inr c"
    and row: "find (\<lambda>r. token r = rt) (refreshTokens s) = Some r"
  shows "refreshToken e now' rt (rotated now rt new owner s) =
           (Inl ''Refresh token has been revoked'', rotated now rt new owner s) \<or>
         refreshToken e now' rt (rotated now rt new owner s) =
           (Inl ''Refresh token has expired'', rotated now rt new owner s)"
proof -
  have found: "find (\<lambda>r. token r = rt) (refreshTokens (rotated now rt new owner s)) =
                 Some (r\<lparr>isRevoked := True\<rparr>)"
    using find_after_revoke [OF row] by (simp add: rotated_def)
  from verifyRefreshToken_at_other_time [OF verified, of now']
  show ?thesis
  proof
    assume "verifyRefreshToken e now' rt = Inr c"
    then have "refreshToken e now' rt (rotated now rt new owner s) =
                 (Inl ''Refresh token has been revoked'', rotated now rt new owner s)"
      using found verifyRefreshToken_not_falsy [OF verified]
      by (simp add: refreshToken_def io_defs refreshToken_findUnique_include_user_def
            message_tests)
    then show ?thesis ..
  next
    assume "verifyRefreshToken e now' rt = Inl ''Refresh token has expired''"
    then have "refreshToken e now' rt (rotated now rt new owner s) =
                 (Inl ''Refresh token has expired'', rotated now rt new owner s)"
      using verifyRefreshToken_not_falsy [OF verified]
      by (simp add: refreshToken_def io_defs message_tests)
    then show ?thesis ..
  qed
qed

text \<open>
  C1 at a concrete input. \<open>alice\<close> registers at clock 5000 and presents her refresh token
  400 ms later. The token verifies, its row is in the store and ACTIVE. The rotation signs
  the same claims in the same second, so the new token string is the old one; after the
  old row is revoked the insert of the new row violates the unique constraint. The call
  throws \<open>Token refresh failed: ...\<close> and the account is left with no ACTIVE row.
\<close>

theorem refreshToken_same_second_fails:
  "register test_env toy_bcrypt 5000 alice empty_db =
     (Inr \<lparr>message = ''User registered successfully'',
           resp_user = Some (alice_user\<lparr>password := None\<rparr>),
           tokens = Some \<lparr>accessToken = alice_access, refreshToken_of = alice_refresh\<rparr>,
           resp_count = None\<rparr>, alice_db) \<and>
   verifyRefreshToken test_env 5400 alice_refresh =
     Inr \<lparr>claim_userId = Some 1, claim_email = ''alice@x.com'', claim_role = None,
          claim_type = ''refresh'', claim_iat = 5, claim_exp = 604805,
          claim_iss = ''auth-service'', claim_aud = ''auth-client''\<rparr> \<and>
   find (\<lambda>r. token r = alice_refresh) (refreshTokens alice_db) = Some alice_row \<and>
   active 5400 alice_row \<and>
   refreshToken test_env 5400 alice_refresh alice_db =
     (Inl ''Token refresh failed: Unique constraint failed on the fields: (token)'',
      alice_db\<lparr>refreshTokens := [alice_row\<lparr>isRevoked := True\<rparr>]\<rparr>) \<and>
   filter (active 5400)
     (refreshTokens (alice_db\<lparr>refreshTokens := [alice_row\<lparr>isRevoked := True\<rparr>]\<rparr>)) = []"
  by code_simp

section \<open>Properties of the verifiers\<close>

text \<open>
  A refresh token handed to the access verifier, when the two secrets differ: the
  signature check of the library fails before the type check is reached.
\<close>

lemma verifyAccessToken_of_refresh_token:
  assumes "generateRefreshToken e now p = Inr t"
    and "\<not> falsy_opt (JWT_ACCESS_SECRET e)"
    and "JWT_ACCESS_SECRET e \<noteq> JWT_REFRESH_SECRET e"
  shows "verifyAccessToken e now' t = Inl ''Invalid access token''"
  using assms
  by (auto simp: generateRefreshToken_def verifyAccessToken_def jwt_sign_def jwt_verify_def
        falsy_token_def falsy_opt_def Let_def
      split: if_splits option.splits)

lemma verifyRefreshToken_of_access_token:
  assumes "generateAccessToken e now p = Inr t"
    and "\<not> falsy_opt (JWT_REFRESH_SECRET e)"
    and "JWT_ACCESS_SECRET e \<noteq> JWT_REFRESH_SECRET e"
  shows "verifyRefreshToken e now' t = Inl ''Invalid refresh token''"
  using assms
  by (auto simp: generateAccessToken_def verifyRefreshToken_def jwt_sign_def jwt_verify_def
        falsy_token_def falsy_opt_def Let_def
      split: if_splits option.splits)

text \<open>With one secret for both kinds the type check is reached, and its error is wrapped.\<close>

lemma verifyAccessToken_of_refresh_token_same_secret:
  assumes "generateRefreshToken e now p = Inr t"
    and "JWT_ACCESS_SECRET e = JWT_REFRESH_SECRET e"
    and "now' div 1000 < now div 1000 +
           (case JWT_REFRESH_EXPIRES_IN e of None \<Rightarrow> 7 * 24 * 60 * 60 | Some n \<Rightarrow> n)"
  shows "verifyAccessToken e now' t = Inl ''Failed to verify access token: Invalid token type''"
  using assms
  by (auto simp: generateRefreshToken_def verifyAccessToken_def jwt_sign_def jwt_verify_def
        falsy_token_def falsy_opt_def Let_def
      split: if_splits option.splits)

text \<open>
  C3 at a concrete input, in the environment of the unit tests (two different secrets):
  the refresh token issued for \<open>subject\<close> is rejected by the access verifier with
  \<open>Invalid access token\<close>, the message of a bad signature, and the access token is
  rejected by the refresh verifier with \<open>Invalid refresh token\<close>. Neither message is the
  type error \<open>Invalid token type\<close> that the tests expect.
\<close>

theorem wrong_kind_reported_as_invalid_token:
  "generateRefreshToken test_env 5000 subject =
     Inr (Signed \<lparr>claim_userId = Some 1, claim_email = ''test@example.com'',
                  claim_role = None, claim_type = ''refresh'', claim_iat = 5,
                  claim_exp = 604805, claim_iss = ''auth-service'',
                  claim_aud = ''auth-client''\<rparr> ''test-refresh-secret-key'') \<and>
   verifyAccessToken test_env 6000
     (Signed \<lparr>claim_userId = Some 1, claim_email = ''test@example.com'',
              claim_role = None, claim_type = ''refresh'', claim_iat = 5,
              claim_exp = 604805, claim_iss = ''auth-service'',
              claim_aud = ''auth-client''\<rparr> ''test-refresh-secret-key'') =
     Inl ''Invalid access token'' \<and>
   generateAccessToken test_env 5000 subject =
     Inr (Signed \<lparr>claim_userId = Some 1, claim_email = ''test@example.com'',
                  claim_role = Some ''admin'', claim_type = ''access'', claim_iat = 5,
                  claim_exp = 905, claim_iss = ''auth-service'',
                  claim_aud = ''auth-client''\<rparr> ''test-access-secret-key'') \<and>
   verifyRefreshToken test_env 6000
     (Signed \<lparr>claim_userId = Some 1, claim_email = ''test@example.com'',
              claim_role = Some ''admin'', claim_type = ''access'', claim_iat = 5,
              claim_exp = 905, claim_iss = ''auth-service'',
              claim_aud = ''auth-client''\<rparr> ''test-access-secret-key'') =
     Inl ''Invalid refresh token''"
  by code_simp

section \<open>Properties of account creation\<close>

text \<open>Local registration stores the lower-cased email.\<close>

lemma register_stores_lowercase:
  assumes "register e bc now d s = (Inr resp, s')"
  shows "\<exists>u. users s' = users s @ [u] \<and> email u = toLowerCase (reg_email d)"
  using assms
  by (auto simp: register_def io_defs user_findUnique_email_def user_create_def
        refreshToken_create_def Let_def
      split: if_splits sum.splits option.splits prod.splits)

text \<open>
  C5 at a concrete input: the account created from an OAuth profile whose email is
  \<open>Alice@Example.COM\<close> is stored with that spelling, not with its lower-casing, while
  the registration of \<open>alice\<close> stores the lower-cased email.
\<close>

theorem createOAuthUser_keeps_email_case:
  "map email (users (snd (createOAuthUser 5000 ''Alice@Example.COM'' ''google_1'' ''google''
                            google_profile empty_db))) = [''Alice@Example.COM''] \<and>
   toLowerCase ''Alice@Example.COM'' = ''alice@example.com'' \<and>
   map email (users (snd (register test_env toy_bcrypt 5000 alice empty_db))) =
     [toLowerCase (reg_email alice)]"
  by code_simp

section \<open>Properties of the purge\<close>

text \<open>
  C8: the purge deletes exactly the rows that are revoked or whose \<open>expiresAt\<close> is before
  the clock, and reports their number. A second purge, at a clock by which no remaining
  row has newly expired, deletes nothing, reports 0 and leaves the store as the first
  purge left it. A row that is ACTIVE at the time of a purge survives it.
\<close>

theorem cleanupExpiredTokens_idempotent:
  assumes "cleanupExpiredTokens now s = (r1, s1)"
    and "cleanupExpiredTokens now' s1 = (r2, s2)"
    and "\<forall>r \<in> set (refreshTokens s). \<not> expiresAt r < now \<longrightarrow> \<not> expiresAt r < now'"
  shows "refreshTokens s1 = filter (\<lambda>r. \<not> (expiresAt r < now \<or> isRevoked r)) (refreshTokens s) \<and>
         users s1 = users s \<and>
         (\<exists>resp. r1 = Inr resp \<and>
            resp_count resp =
              Some (length (filter (\<lambda>r. expiresAt r < now \<or> isRevoked r) (refreshTokens s)))) \<and>
         (\<exists>resp. r2 = Inr resp \<and> resp_count resp = Some 0) \<and>
         s2 = s1 \<and>
         (\<forall>r \<in> set (refreshTokens s). \<not> isRevoked r \<and> expiresAt r > now \<longrightarrow>
            r \<in> set (refreshTokens s1)) \<and>
         (\<forall>r \<in> set (refreshTokens s1). \<not> isRevoked r \<and> expiresAt r > now' \<longrightarrow>
            r \<in> set (refreshTokens s2))"
proof -
  let ?dead = "\<lambda>t r. expiresAt r < t \<or> isRevoked r"
  have del: "\<And>t (s0::db). cleanupExpiredTokens t s0 =
      (Inr \<lparr>message = ''Cleaned up '' @ decimal (length (filter (?dead t) (refreshTokens s0))) @
                       '' expired/revoked tokens'',
            resp_user = None, tokens = None,
            resp_count = Some (length (filter (?dead t) (refreshTokens s0)))\<rparr>,
       s0\<lparr>refreshTokens := filter (\<lambda>r. \<not> ?dead t r) (refreshTokens s0)\<rparr>)"
    by (simp add: cleanupExpiredTokens_def refreshToken_deleteMany_expired_or_revoked_def
          io_defs)
  have s1: "s1 = s\<lparr>refreshTokens := filter (\<lambda>r. \<not> ?dead now r) (refreshTokens s)\<rparr>"
    and r1: "\<exists>resp. r1 = Inr resp \<and>
               resp_count resp = Some (length (filter (?dead now) (refreshTokens s)))"
    using assms(1) unfolding del by auto
  have alive: "\<forall>r \<in> set (refreshTokens s1). \<not> ?dead now' r"
    using assms(3) by (auto simp: s1)
  have none: "filter (?dead now') (refreshTokens s1) = []"
    using alive by (simp add: filter_empty_conv)
  have keep: "filter (\<lambda>r. \<not> ?dead now' r) (refreshTokens s1) = refreshTokens s1"
    using alive by (simp add: filter_id_conv)
  have s2: "s2 = s1" and r2: "\<exists>resp. r2 = Inr resp \<and> resp_count resp = Some 0"
    using assms(2) unfolding del none keep by auto
  have rows1: "refreshTokens s1 = filter (\<lambda>r. \<not> ?dead now r) (refreshTokens s)"
    and users1: "users s1 = users s"
    by (simp_all add: s1)
  have active1: "\<forall>r \<in> set (refreshTokens s). \<not> isRevoked r \<and> expiresAt r > now \<longrightarrow>
                   r \<in> set (refreshTokens s1)"
    by (auto simp: rows1)
  show ?thesis
    using rows1 users1 r1 r2 s2 active1 by blast
qed

theorem cleanupExpiredTokens_idempotent_witness:
  "cleanupExpiredTokens 90000
     (alice_db2\<lparr>refreshTokens := [alice_row\<lparr>isRevoked := True\<rparr>, alice_row2]\<rparr>) =
     (Inr \<lparr>message = ''Cleaned up 1 expired/revoked tokens'', resp_user = None,
           tokens = None, resp_count = Some 1\<rparr>,
      alice_db2\<lparr>refreshTokens := [alice_row2]\<rparr>) \<and>
   cleanupExpiredTokens 90001 (alice_db2\<lparr>refreshTokens := [alice_row2]\<rparr>) =
     (Inr \<lparr>message = ''Cleaned up 0 expired/revoked tokens'', resp_user = None,
           tokens = None, resp_count = Some 0\<rparr>,
      alice_db2\<lparr>refreshTokens := [alice_row2]\<rparr>) \<and>
   active 90000 alice_row2 \<and>
   alice_row2 \<in> set (refreshTokens (alice_db2\<lparr>refreshTokens := [alice_row2]\<rparr>))"
proof -
  let ?s = "alice_db2\<lparr>refreshTokens := [alice_row\<lparr>isRevoked := True\<rparr>, alice_row2]\<rparr>"
  let ?s1 = "alice_db2\<lparr>refreshTokens := [alice_row2]\<rparr>"
  have first: "cleanupExpiredTokens 90000 ?s =
     (Inr \<lparr>message = ''Cleaned up 1 expired/revoked tokens'', resp_user = None,
           tokens = None, resp_count = Some 1\<rparr>, ?s1)"
    by code_simp
  have second: "cleanupExpiredTokens 90001 ?s1 =
     (Inr \<lparr>message = ''Cleaned up 0 expired/revoked tokens'', resp_user = None,
           tokens = None, resp_count = Some 0\<rparr>, ?s1)"
    by code_simp
  have quiet: "\<forall>r \<in> set (refreshTokens ?s). \<not> expiresAt r < 90000 \<longrightarrow> \<not> expiresAt r < 90001"
    by code_simp
  have row: "alice_row2 \<in> set (refreshTokens ?s)" "\<not> isRevoked alice_row2"
    "expiresAt alice_row2 > 90000" "active 90000 alice_row2"
    by code_simp+
  from cleanupExpiredTokens_idempotent [OF first second quiet]
  have "\<forall>r \<in> set (refreshTokens ?s). \<not> isRevoked r \<and> expiresAt r > 90000 \<longrightarrow>
          r \<in> set (refreshTokens ?s1)"
    by blast
  with row have "alice_row2 \<in> set (refreshTokens ?s1)"
    by blast
  with first second row(4) show ?thesis
    by blast
qed

section \<open>Rows never come back\<close>

lemma row_evolves_refl: "row_evolves r r"
  by (simp add: row_evolves_def)

lemma row_evolves_trans: "row_evolves a b \<Longrightarrow> row_evolves b c \<Longrightarrow> row_evolves a c"
  by (auto simp: row_evolves_def)

lemma row_evolves_id: "row_evolves r r' \<Longrightarrow> token_id r' = token_id r"
  by (auto simp: row_evolves_def)

lemma evolves_refl: "evolves s s"
  by (auto simp: evolves_def intro: row_evolves_refl)

lemma evolves_trans:
  assumes "evolves a b" and "evolves b c"
  shows "evolves a c"
  unfolding evolves_def
proof (intro conjI ballI impI)
  show "next_id a \<le> next_id c"
    using assms by (simp add: evolves_def)
  show "store_ok c" if "store_ok a"
    using assms that by (simp add: evolves_def)
  fix r'' assume r'': "r'' \<in> set (refreshTokens c)" and old: "token_id r'' < next_id a"
  have "token_id r'' < next_id b"
    using old assms(1) by (simp add: evolves_def)
  with r'' assms(2) obtain r' where r': "r' \<in> set (refreshTokens b)" and e2: "row_evolves r' r''"
    by (auto simp: evolves_def)
  have "token_id r' < next_id a"
    using row_evolves_id [OF e2] old by simp
  with r' assms(1) obtain r where "r \<in> set (refreshTokens a)" and "row_evolves r r'"
    by (auto simp: evolves_def)
  with e2 show "\<exists>r \<in> set (refreshTokens a). row_evolves r r''"
    by (blast intro: row_evolves_trans)
qed

lemma preserves_return: "preserves (io_return x)"
  by (simp add: preserves_def io_return_def evolves_refl)

lemma preserves_throw: "preserves (io_throw m)"
  by (simp add: preserves_def io_throw_def evolves_refl)

lemma preserves_lift: "preserves (io_lift r)"
  by (simp add: preserves_def io_lift_def evolves_refl)

lemma preserves_bind:
  assumes "preserves m" and "\<And>x. preserves (f x)"
  shows "preserves (io_bind m f)"
  unfolding preserves_def
proof
  fix s
  show "evolves s (snd (io_bind m f s))"
  proof (cases "m s")
    case (Pair res s')
    have 1: "evolves s s'"
      using assms(1) Pair by (auto simp: preserves_def dest: spec [of _ s])
    show ?thesis
    proof (cases res)
      case (Inl e)
      with Pair 1 show ?thesis by (simp add: io_bind_def)
    next
      case (Inr x)
      have "evolves s' (snd (f x s'))"
        using assms(2) by (simp add: preserves_def)
      with 1 Pair Inr show ?thesis
        by (auto simp: io_bind_def intro: evolves_trans)
    qed
  qed
qed

lemma preserves_catch:
  assumes "preserves body" and "\<And>m. preserves (handler m)"
  shows "preserves (io_catch body handler)"
  unfolding preserves_def
proof
  fix s
  show "evolves s (snd (io_catch body handler s))"
  proof (cases "body s")
    case (Pair res s')
    have 1: "evolves s s'"
      using assms(1) Pair by (auto simp: preserves_def dest: spec [of _ s])
    show ?thesis
    proof (cases res)
      case (Inr x)
      with Pair 1 show ?thesis by (simp add: io_catch_def)
    next
      case (Inl e)
      have "evolves s' (snd (handler e s'))"
        using assms(2) by (simp add: preserves_def)
      with 1 Pair Inl show ?thesis
        by (auto simp: io_catch_def intro: evolves_trans)
    qed
  qed
qed

lemma preserves_reads:
  "preserves (user_findUnique_email mail)"
  "preserves (refreshToken_findUnique t)"
  "preserves (refreshToken_findUnique_include_user t)"
  by (simp_all add: preserves_def user_findUnique_email_def refreshToken_findUnique_def
        refreshToken_findUnique_include_user_def evolves_refl)

lemma preserves_user_create: "preserves (user_create now data)"
  by (auto simp: preserves_def user_create_def evolves_def store_ok_def Let_def
        intro: row_evolves_refl less_SucI)

lemma preserves_user_update: "preserves (user_update_lastLoginAt i now)"
  by (auto simp: preserves_def user_update_lastLoginAt_def evolves_def store_ok_def
        intro: row_evolves_refl)

lemma preserves_create: "preserves (refreshToken_create now t owner expiry)"
  by (auto simp: preserves_def refreshToken_create_def evolves_def store_ok_def
        intro: row_evolves_refl less_SucI)

lemma revoke_map_ids:
  "map token_id (map (\<lambda>r. if P r then r\<lparr>isRevoked := True\<rparr> else r) rows) = map token_id rows"
  by (induction rows) auto

lemma revoke_map_evolves:
  "r' \<in> set (map (\<lambda>r. if P r then r\<lparr>isRevoked := True\<rparr> else r) rows) \<Longrightarrow>
   \<exists>r \<in> set rows. row_evolves r r'"
  by (auto simp: row_evolves_def)

lemma revoke_map_bound:
  "r' \<in> set (map (\<lambda>r. if P r then r\<lparr>isRevoked := True\<rparr> else r) rows) \<Longrightarrow>
   \<forall>r \<in> set rows. token_id r < n \<Longrightarrow> token_id r' < n"
  by auto

lemma preserves_update: "preserves (refreshToken_update_revoke t)"
  unfolding preserves_def evolves_def store_ok_def refreshToken_update_revoke_def
  by (auto simp: revoke_map_ids simp del: set_map map_map
        intro: row_evolves_refl dest: revoke_map_evolves revoke_map_bound)

lemma preserves_updateMany: "preserves (refreshToken_updateMany_revoke owner)"
  unfolding preserves_def evolves_def store_ok_def refreshToken_updateMany_revoke_def
  by (auto simp: revoke_map_ids simp del: set_map map_map
        intro: row_evolves_refl dest: revoke_map_evolves revoke_map_bound)

lemma preserves_deleteMany: "preserves (refreshToken_deleteMany_expired_or_revoked now)"
  unfolding preserves_def evolves_def store_ok_def refreshToken_deleteMany_expired_or_revoked_def
  by (auto simp: distinct_map_filter intro: row_evolves_refl)

lemmas preserves_intros =
  preserves_return preserves_throw preserves_lift preserves_bind preserves_catch
  preserves_reads preserves_user_create preserves_user_update preserves_create
  preserves_update preserves_updateMany preserves_deleteMany

lemma preserves_logout: "preserves (logout e now rt)"
  unfolding logout_def
  by (auto intro!: preserves_intros split: option.split)

lemma preserves_refreshToken: "preserves (refreshToken e now rt)"
  unfolding refreshToken_def
  by (auto intro!: preserves_intros split: option.split prod.split)

lemma preserves_register: "preserves (register e bc now d)"
  unfolding register_def
  by (auto intro!: preserves_intros split: option.split)

lemma preserves_login: "preserves (login e bc now c)"
  unfolding login_def
  by (auto intro!: preserves_intros split: option.split)

lemma preserves_revokeAllTokens: "preserves (revokeAllTokens owner)"
  unfolding revokeAllTokens_def
  by (auto intro!: preserves_intros split: option.split)

lemma preserves_cleanup: "preserves (cleanupExpiredTokens now)"
  unfolding cleanupExpiredTokens_def
  by (auto intro!: preserves_intros)

lemma evolves_step: "evolves s (step e bc s op)"
  using preserves_logout preserves_refreshToken preserves_register preserves_login
    preserves_revokeAllTokens preserves_cleanup
  by (cases op) (simp_all add: preserves_def)

lemma evolves_run: "evolves s (run e bc ops s)"
  unfolding run_def
proof (induction ops arbitrary: s)
  case Nil
  show ?case by (simp add: evolves_refl)
next
  case (Cons op ops)
  show ?case
    using evolves_trans [OF evolves_step Cons.IH] by simp
qed

lemma rows_only_get_revoked:
  assumes "store_ok s"
    and "r \<in> set (refreshTokens s)"
    and "r' \<in> set (refreshTokens (run e bc ops s))"
    and "token_id r' = token_id r"
  shows "(isRevoked r \<longrightarrow> isRevoked r') \<and> expiresAt r' = expiresAt r \<and>
         token r' = token r \<and> userId r' = userId r"
proof -
  have "token_id r' < next_id s"
    using assms(1,2,4) by (simp add: store_ok_def)
  with evolves_run [of s e bc ops] assms(3)
  obtain r0 where r0: "r0 \<in> set (refreshTokens s)" and ev: "row_evolves r0 r'"
    by (auto simp: evolves_def)
  have "token_id r0 = token_id r"
    using row_evolves_id [OF ev] assms(4) by simp
  with r0 assms(1,2) have "r0 = r"
    by (auto simp: store_ok_def distinct_map inj_on_def)
  with ev show ?thesis
    by (auto simp: row_evolves_def)
qed

lemma refreshToken_Inr_rotated:
  assumes "refreshToken e now rt s = (Inr resp, s1)"
  shows "\<exists>new owner. s1 = rotated now rt new owner s"
  using refreshToken_Inr [OF assms] by blast

text \<open>
  C2: take a well-formed store, any of its rows, and any sequence of register, login,
  logout, refresh, revoke-all and purge calls, returning or throwing. If the row is still
  in the store afterwards (the row with the same identifier), then it is revoked if it
  was revoked before, and its \<open>expiresAt\<close>, token and owner are what they were: no row
  goes from revoked to not revoked, and no expiry moves. And a rotation that returns has
  set \<open>isRevoked\<close> on the presented row and appended one row with a new identifier,
  nothing else (\<open>rotated\<close>).
\<close>

theorem revoked_monotonic:
  "(store_ok s \<and> r \<in> set (refreshTokens s) \<and>
    r' \<in> set (refreshTokens (run e bc ops s)) \<and> token_id r' = token_id r \<longrightarrow>
      (isRevoked r \<longrightarrow> isRevoked r') \<and> expiresAt r' = expiresAt r \<and>
      token r' = token r \<and> userId r' = userId r) \<and>
   (refreshToken e now rt s = (Inr resp, s1) \<longrightarrow>
      (\<exists>new owner. s1 = rotated now rt new owner s))"
  using rows_only_get_revoked [of s r r' e bc ops] refreshToken_Inr_rotated [of e now rt s resp s1]
  by blast

theorem revoked_monotonic_witness:
  "store_ok alice_db2 \<and>
   alice_row2 \<in> set (refreshTokens alice_db2) \<and>
   alice_row2\<lparr>isRevoked := True\<rparr> \<in>
     set (refreshTokens (run test_env toy_bcrypt
            [Logout 80000 alice_refresh, Refresh 90000 alice_refresh2] alice_db2)) \<and>
   expiresAt (alice_row2\<lparr>isRevoked := True\<rparr>) = expiresAt alice_row2 \<and>
   token (alice_row2\<lparr>isRevoked := True\<rparr>) = token alice_row2 \<and>
   (\<exists>resp new owner.
      refreshToken test_env 90000 alice_refresh2 alice_db2 =
        (Inr resp, rotated 90000 alice_refresh2 new owner alice_db2))"
proof -
  let ?ops = "[Logout 80000 alice_refresh, Refresh 90000 alice_refresh2]"
  let ?new = "Signed \<lparr>claim_userId = Some 1, claim_email = ''alice@x.com'', claim_role = None,
                     claim_type = ''refresh'', claim_iat = 90, claim_exp = 604890,
                     claim_iss = ''auth-service'', claim_aud = ''auth-client''\<rparr>
               ''test-refresh-secret-key''"
  have ok: "store_ok alice_db2"
    by code_simp
  have before: "alice_row2 \<in> set (refreshTokens alice_db2)"
    by code_simp
  have after: "alice_row2\<lparr>isRevoked := True\<rparr> \<in>
                 set (refreshTokens (run test_env toy_bcrypt ?ops alice_db2))"
    by code_simp
  have same: "token_id (alice_row2\<lparr>isRevoked := True\<rparr>) = token_id alice_row2"
    by simp
  have returned: "refreshToken test_env 90000 alice_refresh2 alice_db2 =
                    (Inr (projr (fst (refreshToken test_env 90000 alice_refresh2 alice_db2))),
                     rotated 90000 alice_refresh2 ?new 1 alice_db2)"
    by code_simp
  note inst = revoked_monotonic [of alice_db2 alice_row2 "alice_row2\<lparr>isRevoked := True\<rparr>"
      test_env toy_bcrypt ?ops 90000 alice_refresh2
      "projr (fst (refreshToken test_env 90000 alice_refresh2 alice_db2))"
      "rotated 90000 alice_refresh2 ?new 1 alice_db2"]
  from inst ok before after same
  have kept: "expiresAt (alice_row2\<lparr>isRevoked := True\<rparr>) = expiresAt alice_row2 \<and>
              token (alice_row2\<lparr>isRevoked := True\<rparr>) = token alice_row2"
    by blast
  from inst returned
  have "\<exists>new owner. rotated 90000 alice_refresh2 ?new 1 alice_db2 =
          rotated 90000 alice_refresh2 new owner alice_db2"
    by blast
  with returned have "\<exists>resp new owner.
      refreshToken test_env 90000 alice_refresh2 alice_db2 =
        (Inr resp, rotated 90000 alice_refresh2 new owner alice_db2)"
    by blast
  with ok before after kept show ?thesis
    by blast
qed

end
